theory Spec2Isabelle
  imports Complex_Main
begin

section \<open>Proof-of-Training: data model\<close>

text \<open>
  A shallow embedding of the Proof-of-Training simulation. Python objects are records,
  dictionaries are maps, exceptions are values of \<open>error + 'a\<close> (\<open>Inl\<close> the exception),
  and mutation is explicit state passing. Several classes of the source share attribute
  names (\<open>block_header\<close>, \<open>transactions\<close>, \<open>timestamp\<close>, ...); a record field that
  would clash carries a short prefix naming its class.
\<close>

type_synonym bytes = string
  \<comment> \<open>a Python \<open>bytes\<close> object: one \<open>char\<close> per byte\<close>

type_synonym float = real
  \<comment> \<open>amounts and stakes; the modelled code stores and prints them, it does no arithmetic\<close>

type_synonym rng = nat
  \<comment> \<open>the state of the interpreter's global generator (module \<open>random\<close>), encoded\<close>

datatype error = KeyError | IndexError | TypeError | ValueError

subsection \<open>Users and transactions\<close>

record User =
  name :: string
  balance :: float
  private_key :: bytes
  public_key :: bytes

record Transaction =
  sender :: User
  amount :: float
  receiver :: User
  employee_name :: "string option"
  tx_timestamp :: string
  id :: string

subsection \<open>Hashable, signable, serializable messages\<close>

text \<open>
  \<open>HashSignSerialPoTMessage\<close> is the base class; \<open>PoSMessage\<close>, \<open>TrainingDeclaration\<close>,
  \<open>BlockHeader\<close> and \<open>WrappedBlock\<close> extend it. Record extension mirrors the class
  hierarchy, so an operation of the base class applies to every subclass.
\<close>

record HashSignSerialPoTMessage =
  id_m :: string
  id_s :: string
  msg_public_key :: bytes
  timestamp :: string
  signature :: "bytes option"

record PoSMessage = HashSignSerialPoTMessage +
  coinstake :: float

record TrainingDeclaration = PoSMessage +
  training_secret_commitment :: bytes
  h_s :: string

record BlockHeader = PoSMessage +
  parent_block_hash :: bytes
  block_index :: int
  training_secret :: bytes
  bh_training_declarations :: "TrainingDeclaration list"

record StakeholderSignature =
  ss_block_header :: BlockHeader
  block_header_id :: string
  ss_public_key :: bytes
  ss_signature :: bytes

record WrappedBlock = HashSignSerialPoTMessage +
  wb_block_header :: BlockHeader
  wb_coinbase_transaction :: Transaction
  wb_transactions :: "Transaction list"
  wb_stakeholders_signatures :: "StakeholderSignature list"

record ExampleModel =
  model_id :: string
  current_iteration :: int

subsection \<open>Blocks and the chain\<close>

record Block =
  index :: int
  previous_hash :: bytes
  b_timestamp :: string
  block_header :: "BlockHeader option"
  coinbase_transaction :: "Transaction option"
  transactions :: "Transaction list"
  stakeholders_signatures :: "StakeholderSignature list option"
  hash :: bytes

record Blockchain =
  owner_name :: string
  chain :: "Block list"
  all_transactions :: "Transaction list"

subsection \<open>The two books\<close>

record TD_stage =
  td_open :: bool
  training_declarations :: "TrainingDeclaration list"

record TrainingDeclarationsBook =
  td_book :: "string \<rightharpoonup> TD_stage"
  td_owner_name :: string

record SH_info =
  sigs :: "StakeholderSignature list"
  roy :: "bool option"

record SS_stage =
  ss_open :: bool
  sh_info :: "string \<rightharpoonup> SH_info"

record StakeholderSignaturesBook =
  ss_book :: "string \<rightharpoonup> SS_stage"
  ss_owner_name :: string

subsection \<open>Library primitives\<close>

text \<open>
  Functions of the Python standard library and of the packages \<open>cryptography\<close> that
  the source calls. They are parameters of the model: every theorem holds for each choice
  of them, in particular for the real SHA-256, pickle and Ed25519.
  \<^item> \<open>sha256\<close>: \<open>hashlib.sha256(data).digest()\<close>;
  \<^item> \<open>pickle_td\<close>, \<open>pickle_bh\<close>, \<open>pickle_wb\<close>: \<open>pickle.dumps(self)\<close> on an object of
    the respective class;
  \<^item> \<open>ed25519_sign\<close>: \<open>private_key.sign(message)\<close>; \<open>ed25519_verify pk sig msg\<close>:
    whether \<open>public_key.verify(signature, message)\<close> returns (rather than raising
    \<open>InvalidSignature\<close>);
  \<^item> \<open>encode_to_bytes\<close>: the PEM encoding of a key; \<open>load_pem_public_key\<close>: its
    inverse on public keys, \<open>None\<close> where the library raises \<open>ValueError\<close>;
  \<^item> \<open>random_seed\<close>: the generator state after \<open>random.seed(a)\<close>, which replaces the
    previous state; \<open>random_sample\<close>: \<open>random.sample(population, k)\<close> for
    \<open>k \<le> len(population)\<close>, with the generator state it leaves;
  \<^item> \<open>set_order\<close>: \<open>tuple(set(xs))\<close>, the distinct elements of \<open>xs\<close> in the iteration
    order of the interpreter's hash table;
  \<^item> \<open>str_User\<close>, \<open>str_float\<close>, \<open>str_Transaction\<close>, \<open>str_BlockHeader\<close>,
    \<open>str_StakeholderSignature\<close>: \<open>str(x)\<close>, the generated dataclass representation;
  \<^item> \<open>coinbase_reward\<close>: the floating-point expression of
    \<open>CoinbaseUser.coinbase_reward\<close>.
\<close>

record primitives =
  sha256 :: "bytes \<Rightarrow> bytes"
  pickle_td :: "TrainingDeclaration \<Rightarrow> bytes"
  pickle_bh :: "BlockHeader \<Rightarrow> bytes"
  pickle_wb :: "WrappedBlock \<Rightarrow> bytes"
  ed25519_sign :: "bytes \<Rightarrow> bytes \<Rightarrow> bytes"
  ed25519_verify :: "bytes \<Rightarrow> bytes \<Rightarrow> bytes \<Rightarrow> bool"
  encode_to_bytes :: "bytes \<Rightarrow> bytes"
  load_pem_public_key :: "bytes \<Rightarrow> bytes option"
  random_seed :: "bytes \<Rightarrow> rng"
  random_sample :: "rng \<Rightarrow> string option list \<Rightarrow> nat \<Rightarrow> string option list \<times> rng"
  set_order :: "string option list \<Rightarrow> string option list"
  str_User :: "User \<Rightarrow> string"
  str_float :: "float \<Rightarrow> string"
  str_Transaction :: "Transaction \<Rightarrow> string"
  str_BlockHeader :: "BlockHeader \<Rightarrow> string"
  str_StakeholderSignature :: "StakeholderSignature \<Rightarrow> string"
  coinbase_reward :: "int \<Rightarrow> float"

section \<open>Strings and bytes\<close>

definition encode :: "string \<Rightarrow> bytes" where
  \<comment> \<open>\<open>str.encode()\<close>: a \<open>string\<close> already is its UTF-8 byte sequence\<close>
  "encode s = s"

definition hex_digit :: "nat \<Rightarrow> char" where
  "hex_digit n = ''0123456789abcdef'' ! n"

definition hex :: "bytes \<Rightarrow> string" where
  \<comment> \<open>\<open>bytes.hex()\<close>\<close>
  "hex bs = concat (map (\<lambda>c. [hex_digit (of_char c div 16), hex_digit (of_char c mod 16)]) bs)"

fun str_nat :: "nat \<Rightarrow> string" where
  "str_nat n = (if n < 10 then [hex_digit n] else str_nat (n div 10) @ [hex_digit (n mod 10)])"

declare str_nat.simps [simp del]

definition str_int :: "int \<Rightarrow> string" where
  \<comment> \<open>\<open>str(i)\<close> of a Python int\<close>
  "str_int i = (if i < 0 then CHR ''-'' # str_nat (nat (- i)) else str_nat (nat i))"

definition str_opt :: "('a \<Rightarrow> string) \<Rightarrow> 'a option \<Rightarrow> string" where
  \<comment> \<open>\<open>str(x)\<close> of an \<open>Optional\<close>: \<open>str(None)\<close> is \<open>'None'\<close>\<close>
  "str_opt f x = (case x of None \<Rightarrow> ''None'' | Some v \<Rightarrow> f v)"

section \<open>Message base class (hashable\_serializable\_message.py)\<close>

text \<open>
  \<open>dumps_without_sig\<close> stores the signature aside, sets the attribute to \<open>None\<close>,
  pickles the object and writes the signature back. The model returns the pickled bytes
  together with the object as the call leaves it. The first argument is \<open>pickle.dumps\<close>
  at the object's class.
\<close>

definition dumps_without_sig ::
  "('a HashSignSerialPoTMessage_scheme \<Rightarrow> bytes) \<Rightarrow> 'a HashSignSerialPoTMessage_scheme
    \<Rightarrow> bytes \<times> 'a HashSignSerialPoTMessage_scheme" where
  "dumps_without_sig pickle self =
     (let signature_tmp = signature self;
          self1 = self\<lparr>signature := None\<rparr>;
          data = pickle self1;
          self2 = self1\<lparr>signature := signature_tmp\<rparr>
      in (data, self2))"

definition calculate_hash ::
  "primitives \<Rightarrow> ('a HashSignSerialPoTMessage_scheme \<Rightarrow> bytes) \<Rightarrow> 'a HashSignSerialPoTMessage_scheme
    \<Rightarrow> bytes \<times> 'a HashSignSerialPoTMessage_scheme" where
  "calculate_hash P pickle self =
     (let (data, self') = dumps_without_sig pickle self in (sha256 P data, self'))"

definition set_signature ::
  "'a HashSignSerialPoTMessage_scheme \<Rightarrow> bytes \<Rightarrow> 'a HashSignSerialPoTMessage_scheme" where
  "set_signature self sig = self\<lparr>signature := Some sig\<rparr>"

definition sign_message :: "primitives \<Rightarrow> bytes \<Rightarrow> bytes \<Rightarrow> bytes" where
  "sign_message P priv message = ed25519_sign P priv message"

definition sign ::
  "primitives \<Rightarrow> ('a HashSignSerialPoTMessage_scheme \<Rightarrow> bytes) \<Rightarrow> bytes
    \<Rightarrow> 'a HashSignSerialPoTMessage_scheme \<Rightarrow> 'a HashSignSerialPoTMessage_scheme" where
  "sign P pickle priv self =
     (let sig = sign_message P priv (pickle self)
      in set_signature self sig)"

definition set_timestamp ::
  "'a HashSignSerialPoTMessage_scheme \<Rightarrow> string \<Rightarrow> 'a HashSignSerialPoTMessage_scheme" where
  "set_timestamp self ts = self\<lparr>timestamp := ts\<rparr>"

definition get_id ::
  "primitives \<Rightarrow> ('a HashSignSerialPoTMessage_scheme \<Rightarrow> bytes) \<Rightarrow> 'a HashSignSerialPoTMessage_scheme
    \<Rightarrow> string \<times> 'a HashSignSerialPoTMessage_scheme" where
  "get_id P pickle self =
     (let (h, self') = calculate_hash P pickle self in (take 8 (hex h), self'))"

text \<open>
  \<open>get_id\<close> and \<open>calculate_hash\<close> hand back the object as \<open>dumps_without_sig\<close> leaves it.
  Callers below that only read the result take the first component.
\<close>

section \<open>Training declarations book (training\_declarations\_book.py)\<close>

definition TrainingDeclarationsBook_init :: "string \<Rightarrow> TrainingDeclarationsBook" where
  "TrainingDeclarationsBook_init owner = \<lparr>td_book = Map.empty, td_owner_name = owner\<rparr>"

definition add_training_declaration_to_book ::
  "TrainingDeclarationsBook \<Rightarrow> TrainingDeclaration \<Rightarrow> TrainingDeclarationsBook" where
  "add_training_declaration_to_book self td =
     (let ids = id_s td;
          \<comment> \<open>\<open>if id_s not in self.book: self.book[id_s] = {...}\<close>\<close>
          stage = (case td_book self ids of
                     None \<Rightarrow> \<lparr>td_open = True, training_declarations = []\<rparr>
                   | Some st \<Rightarrow> st);
          book1 = (td_book self)(ids \<mapsto> stage)
      in if \<not> td_open stage then self\<lparr>td_book := book1\<rparr>
         else self\<lparr>td_book :=
                book1(ids \<mapsto> stage\<lparr>training_declarations := training_declarations stage @ [td]\<rparr>)\<rparr>)"

definition get_training_declarations ::
  "TrainingDeclarationsBook \<Rightarrow> string \<Rightarrow> error + TrainingDeclaration list" where
  "get_training_declarations self ids =
     (case td_book self ids of
        None \<Rightarrow> Inl KeyError
      | Some st \<Rightarrow> Inr (training_declarations st))"

definition get_training_declarations_num :: "TrainingDeclarationsBook \<Rightarrow> string \<Rightarrow> nat" where
  "get_training_declarations_num self ids =
     (case td_book self ids of
        None \<Rightarrow> 0 \<comment> \<open>\<open>except KeyError: return 0\<close>\<close>
      | Some st \<Rightarrow> length (training_declarations st))"

definition TrainingDeclarationsBook_close ::
  "TrainingDeclarationsBook \<Rightarrow> string \<Rightarrow> error + TrainingDeclarationsBook" where
  "TrainingDeclarationsBook_close self ids =
     (case td_book self ids of
        None \<Rightarrow> Inl KeyError
      | Some st \<Rightarrow> Inr (self\<lparr>td_book := (td_book self)(ids \<mapsto> st\<lparr>td_open := False\<rparr>)\<rparr>))"

section \<open>Stakeholder signatures book (stakeholder\_signatures\_book.py)\<close>

definition StakeholderSignaturesBook_init :: "string \<Rightarrow> StakeholderSignaturesBook" where
  "StakeholderSignaturesBook_init owner = \<lparr>ss_book = Map.empty, ss_owner_name = owner\<rparr>"

definition add_signature_to_book ::
  "primitives \<Rightarrow> StakeholderSignaturesBook \<Rightarrow> StakeholderSignature \<Rightarrow> bool option
    \<Rightarrow> StakeholderSignaturesBook" where
  "add_signature_to_book P self ss roy_flag =
     (let ids = id_s (ss_block_header ss);
          id_bh = fst (get_id P (pickle_bh P) (ss_block_header ss));
          \<comment> \<open>\<open>if id_s not in self.book: ...\<close>\<close>
          stage0 = (case ss_book self ids of
                      None \<Rightarrow> \<lparr>ss_open = True,
                                sh_info = [id_bh \<mapsto> \<lparr>sigs = [], roy = roy_flag\<rparr>]\<rparr>
                    | Some st \<Rightarrow> st);
          \<comment> \<open>\<open>if id_bh not in the stage's sh_info: ...\<close>\<close>
          info = (case sh_info stage0 id_bh of
                    None \<Rightarrow> \<lparr>sigs = [], roy = roy_flag\<rparr>
                  | Some i \<Rightarrow> i);
          stage1 = stage0\<lparr>sh_info := (sh_info stage0)(id_bh \<mapsto> info)\<rparr>
      in if \<not> ss_open stage1 then self\<lparr>ss_book := (ss_book self)(ids \<mapsto> stage1)\<rparr>
         else self\<lparr>ss_book := (ss_book self)(ids \<mapsto>
                stage1\<lparr>sh_info := (sh_info stage1)(id_bh \<mapsto> info\<lparr>sigs := sigs info @ [ss]\<rparr>)\<rparr>)\<rparr>)"

definition get_signatures_for_block_header ::
  "StakeholderSignaturesBook \<Rightarrow> string \<Rightarrow> string \<Rightarrow> StakeholderSignature list" where
  "get_signatures_for_block_header self ids id_bh =
     (case ss_book self ids of
        None \<Rightarrow> []
      | Some st \<Rightarrow> (case sh_info st id_bh of None \<Rightarrow> [] | Some i \<Rightarrow> sigs i))"

definition get_signatures_num :: "StakeholderSignaturesBook \<Rightarrow> string \<Rightarrow> string \<Rightarrow> nat" where
  "get_signatures_num self ids id_bh =
     (case ss_book self ids of
        None \<Rightarrow> 0
      | Some st \<Rightarrow> (case sh_info st id_bh of None \<Rightarrow> 0 | Some i \<Rightarrow> length (sigs i)))"

definition StakeholderSignaturesBook_close ::
  "StakeholderSignaturesBook \<Rightarrow> string \<Rightarrow> StakeholderSignaturesBook" where
  "StakeholderSignaturesBook_close self ids =
     (case ss_book self ids of
        None \<Rightarrow> self \<comment> \<open>\<open>except KeyError: return\<close>\<close>
      | Some st \<Rightarrow> self\<lparr>ss_book := (ss_book self)(ids \<mapsto> st\<lparr>ss_open := False\<rparr>)\<rparr>)"

definition is_open :: "StakeholderSignaturesBook \<Rightarrow> string \<Rightarrow> bool" where
  "is_open self ids = (case ss_book self ids of None \<Rightarrow> True | Some st \<Rightarrow> ss_open st)"

section \<open>Constants (constants.py)\<close>

definition EMPLOYEES_NUM :: nat where "EMPLOYEES_NUM = 11"
definition STAKEHOLDERS_NUM :: nat where "STAKEHOLDERS_NUM = 3"
definition EMPLOYER_CONFIDENCE :: nat where "EMPLOYER_CONFIDENCE = 3"
definition TARGET_BLOCKCHAIN_LENGTH :: nat where "TARGET_BLOCKCHAIN_LENGTH = 6"

section \<open>Users and transactions (user.py, coinbase\_user.py, transaction.py)\<close>

text \<open>
  The constructors read the wall clock (\<open>datetime.now()\<close>) and draw fresh keys
  (\<open>generate_key_pair_bytes()\<close>); the model takes the clock reading \<open>now\<close> and the key
  pair \<open>keys\<close> as arguments.
\<close>

definition User_init :: "string \<Rightarrow> string option \<Rightarrow> float \<Rightarrow> bytes \<times> bytes \<Rightarrow> User" where
  \<comment> \<open>\<open>faker_name\<close> is the value of \<open>faker.name()\<close>, used when no name is given\<close>
  "User_init faker_name nm bal keys =
     \<lparr>name = (case nm of Some n \<Rightarrow> n | None \<Rightarrow> faker_name), balance = bal,
      private_key = fst keys, public_key = snd keys\<rparr>"

definition Transaction_init ::
  "primitives \<Rightarrow> string \<Rightarrow> User \<Rightarrow> float \<Rightarrow> User \<Rightarrow> string option \<Rightarrow> Transaction" where
  "Transaction_init P now sndr amt rcvr emp =
     (let data = encode (str_User P sndr @ str_float P amt @ str_User P rcvr @ now)
      in \<lparr>sender = sndr, amount = amt, receiver = rcvr, employee_name = emp,
          tx_timestamp = now, id = hex (sha256 P data)\<rparr>)"

definition Transaction_eq :: "Transaction \<Rightarrow> Transaction \<Rightarrow> bool" where
  \<comment> \<open>\<open>__eq__\<close> on two transactions\<close>
  "Transaction_eq self other = (id self = id other)"

definition Transaction_hash :: "(string \<Rightarrow> int) \<Rightarrow> Transaction \<Rightarrow> int" where
  \<comment> \<open>\<open>__hash__\<close>; the first argument is the builtin \<open>hash\<close> on strings\<close>
  "Transaction_hash py_hash self = py_hash (id self)"

definition set_employee_name :: "Transaction \<Rightarrow> string \<Rightarrow> Transaction" where
  "set_employee_name self emp = self\<lparr>employee_name := Some emp\<rparr>"

definition create_transaction ::
  "primitives \<Rightarrow> string \<Rightarrow> User \<Rightarrow> float \<Rightarrow> User \<Rightarrow> string option \<Rightarrow> Transaction" where
  "create_transaction P now self amt rcvr emp = Transaction_init P now self amt rcvr emp"

definition CoinbaseUser_create_transaction ::
  "primitives \<Rightarrow> string \<Rightarrow> User \<Rightarrow> int \<Rightarrow> User \<Rightarrow> Transaction" where
  \<comment> \<open>\<open>self\<close> is the coinbase user, \<open>bidx\<close> its attribute \<open>block_index\<close>\<close>
  "CoinbaseUser_create_transaction P now self bidx rcvr =
     create_transaction P now self (coinbase_reward P bidx) rcvr (Some (name rcvr))"

text \<open>
  Python sets of transactions use \<open>__hash__\<close> and \<open>__eq__\<close>, so two transactions are the
  same element when their ids are equal. \<open>set(xs)\<close> keeps the first of several equal
  elements; the order in which a set is iterated is left to the hash table, and the model
  keeps the order of the list.
\<close>

fun Transaction_set :: "Transaction list \<Rightarrow> Transaction list" where
  "Transaction_set [] = []"
| "Transaction_set (t # ts) = t # filter (\<lambda>u. \<not> Transaction_eq u t) (Transaction_set ts)"

definition Transaction_set_difference ::
  "Transaction list \<Rightarrow> Transaction list \<Rightarrow> Transaction list" where
  "Transaction_set_difference xs ys = filter (\<lambda>t. \<not> list_ex (\<lambda>u. Transaction_eq t u) ys) xs"

section \<open>Blocks (block.py)\<close>

text \<open>
  \<open>Block_data\<close> is the string \<open>data\<close> of \<open>calculate_hash\<close>. In the source the
  concatenation is the first operand of a conditional expression
  \<open>A if self.transactions else (B if self.stakeholders_signatures else "")\<close>: the
  conditional binds weaker than \<open>+\<close>.
\<close>

definition Block_data :: "primitives \<Rightarrow> Block \<Rightarrow> string" where
  "Block_data P self =
     (if transactions self \<noteq> [] then
        str_int (index self) @ hex (previous_hash self) @ b_timestamp self
        @ str_opt (str_BlockHeader P) (block_header self)
        @ str_opt (str_Transaction P) (coinbase_transaction self)
        @ concat (map (str_Transaction P) (transactions self))
      else
        (case stakeholders_signatures self of
           Some (s # ss) \<Rightarrow> '''' @ concat (map (str_StakeholderSignature P) (s # ss))
         | _ \<Rightarrow> ''''))"

definition Block_calculate_hash :: "primitives \<Rightarrow> Block \<Rightarrow> bytes" where
  "Block_calculate_hash P self = sha256 P (encode (Block_data P self))"

definition Block_init ::
  "primitives \<Rightarrow> int \<Rightarrow> bytes \<Rightarrow> string \<Rightarrow> BlockHeader option \<Rightarrow> Transaction option
    \<Rightarrow> Transaction list \<Rightarrow> StakeholderSignature list option \<Rightarrow> Block" where
  "Block_init P idx prev ts bh cb txs sgs =
     (let self = \<lparr>index = idx, previous_hash = prev, b_timestamp = ts, block_header = bh,
                  coinbase_transaction = cb, transactions = txs,
                  stakeholders_signatures = sgs, hash = []\<rparr>
      in self\<lparr>hash := Block_calculate_hash P self\<rparr>)"

section \<open>The chain (blockchain.py)\<close>

definition Blockchain_init :: "string \<Rightarrow> Blockchain" where
  "Blockchain_init owner = \<lparr>owner_name = owner, chain = [], all_transactions = []\<rparr>"

definition get_chain_length :: "Blockchain \<Rightarrow> nat" where
  "get_chain_length self = length (chain self)"

definition get_latest_block :: "Blockchain \<Rightarrow> error + Block" where
  \<comment> \<open>\<open>self.chain[-1]\<close>\<close>
  "get_latest_block self = (case chain self of [] \<Rightarrow> Inl IndexError | _ \<Rightarrow> Inr (last (chain self)))"

definition add_block :: "Blockchain \<Rightarrow> Block \<Rightarrow> Blockchain" where
  "add_block self new_block =
     self\<lparr>all_transactions := all_transactions self @ transactions new_block,
          chain := chain self @ [new_block]\<rparr>"

definition append_genesis_block ::
  "primitives \<Rightarrow> (nat \<Rightarrow> string) \<Rightarrow> bytes \<times> bytes \<Rightarrow> bytes \<times> bytes \<Rightarrow> string list
    \<Rightarrow> Blockchain \<Rightarrow> Blockchain" where
  \<comment> \<open>\<open>clock i\<close> is the clock reading at the \<open>i\<close>-th transaction; \<open>employees_names\<close> is
      \<open>Simulation().get_employees_names()\<close>\<close>
  "append_genesis_block P clock keys_a keys_b employees_names self =
     (let user_a = User_init [] (Some ''Genesis A'') (real EMPLOYEES_NUM) keys_a;
          user_b = User_init [] (Some ''Genesis B'') 0 keys_b;
          new_block = Block_init P 0 (encode ''0'') ''1969-07-20 20:17:40'' None None
            (map (\<lambda>(i, n). create_transaction P (clock i) user_a 1 user_b (Some n))
                 (enumerate 0 employees_names))
            None
      in add_block self new_block)"

definition follow_the_coin ::
  "primitives \<Rightarrow> Blockchain \<Rightarrow> bytes \<Rightarrow> rng \<Rightarrow> error + string option list \<times> rng" where
  \<comment> \<open>\<open>g\<close> is the state of the global generator at the call; \<open>random.sample\<close> turns
      the set into a tuple (Python 3.10) and raises \<open>ValueError\<close> when the sample is larger
      than the population\<close>
  "follow_the_coin P self rand_source g =
     (let g1 = random_seed P rand_source;
          possible_stakeholders = set_order P (map employee_name (all_transactions self))
      in if length possible_stakeholders < STAKEHOLDERS_NUM then Inl ValueError
         else Inr (random_sample P g1 possible_stakeholders STAKEHOLDERS_NUM))"

definition fork_happened :: "Block \<Rightarrow> WrappedBlock \<Rightarrow> bool" where
  \<comment> \<open>the condition under which \<open>append_fitted_wrapped_block\<close> logs its warning\<close>
  "fork_happened latest_block wrapped_block =
     (parent_block_hash (wb_block_header wrapped_block) \<noteq> hash latest_block)"

definition append_fitted_wrapped_block ::
  "primitives \<Rightarrow> string \<Rightarrow> Blockchain \<Rightarrow> WrappedBlock \<Rightarrow> error + Blockchain" where
  \<comment> \<open>the test \<open>fork_happened\<close> guards a \<open>logger.warning\<close> only\<close>
  "append_fitted_wrapped_block P now self wrapped_block =
     (case get_latest_block self of
        Inl e \<Rightarrow> Inl e
      | Inr latest_block \<Rightarrow>
          (let block = Block_init P (index latest_block + 1) (hash latest_block) now
                 (Some (wb_block_header wrapped_block))
                 (Some (wb_coinbase_transaction wrapped_block))
                 (wb_transactions wrapped_block)
                 (Some (wb_stakeholders_signatures wrapped_block))
           in Inr (add_block self block)))"

text \<open>A sequence of appends, each with the clock reading at its call.\<close>

fun append_fitted_wrapped_blocks ::
  "primitives \<Rightarrow> Blockchain \<Rightarrow> (string \<times> WrappedBlock) list \<Rightarrow> error + Blockchain" where
  "append_fitted_wrapped_blocks P self [] = Inr self"
| "append_fitted_wrapped_blocks P self ((now, wb) # rest) =
     (case append_fitted_wrapped_block P now self wb of
        Inl e \<Rightarrow> Inl e
      | Inr self' \<Rightarrow> append_fitted_wrapped_blocks P self' rest)"

section \<open>Signatures and difficulty (cryptographic\_utils.py, blockchain\_utils.py, pos\_message.py)\<close>

definition decode_public_key_from_bytes :: "primitives \<Rightarrow> bytes \<Rightarrow> error + bytes" where
  "decode_public_key_from_bytes P pem =
     (case load_pem_public_key P pem of None \<Rightarrow> Inl ValueError | Some key \<Rightarrow> Inr key)"

definition verify_signature ::
  "primitives \<Rightarrow> bytes + bytes \<Rightarrow> bytes \<Rightarrow> bytes option \<Rightarrow> error + bool" where
  \<comment> \<open>the key is a key object (\<open>Inl\<close>) or its PEM bytes (\<open>Inr\<close>); the library raises
      \<open>TypeError\<close> for a signature that is \<open>None\<close>\<close>
  "verify_signature P pk message sig =
     (case (case pk of Inl key \<Rightarrow> Inr key | Inr pem \<Rightarrow> decode_public_key_from_bytes P pem) of
        Inl e \<Rightarrow> Inl e
      | Inr key \<Rightarrow>
          (case sig of
             None \<Rightarrow> Inl TypeError
           | Some s \<Rightarrow> Inr (ed25519_verify P key s message)))"

definition byte_bits :: "char \<Rightarrow> bool list" where
  \<comment> \<open>\<open>format(byte, '08b')\<close>, a set bit as \<open>True\<close>\<close>
  "byte_bits c = map (\<lambda>i. bit (of_char c :: nat) i) [7, 6, 5, 4, 3, 2, 1, 0]"

definition count_leading_zeros :: "bytes \<Rightarrow> nat" where
  "count_leading_zeros bytes_obj =
     (let bit_string = concat (map byte_bits bytes_obj)
      in length bit_string - length (dropWhile (\<lambda>b. \<not> b) bit_string))"

definition pos_td_difficulty :: "float \<Rightarrow> error + float" where
  \<comment> \<open>\<open>math.log2\<close> raises \<open>ValueError\<close> outside its domain\<close>
  "pos_td_difficulty cs = (if cs \<le> 0 then Inl ValueError else Inr (256 - log 2 cs))"

definition pos_bh_difficulty :: "float \<Rightarrow> error + float" where
  "pos_bh_difficulty cs = (if cs \<le> 0 then Inl ValueError else Inr (256 - log 2 cs))"

definition check_meeting_pos_td_difficulty ::
  "primitives \<Rightarrow> ('a PoSMessage_scheme \<Rightarrow> bytes) \<Rightarrow> 'a PoSMessage_scheme \<Rightarrow> error + bool" where
  "check_meeting_pos_td_difficulty P pickle self =
     (case pos_td_difficulty (coinstake self) of
        Inl e \<Rightarrow> Inl e
      | Inr d \<Rightarrow> Inr (real (count_leading_zeros (fst (calculate_hash P pickle self))) \<ge> d))"

definition check_meeting_pos_bh_difficulty ::
  "primitives \<Rightarrow> ('a PoSMessage_scheme \<Rightarrow> bytes) \<Rightarrow> 'a PoSMessage_scheme \<Rightarrow> error + bool" where
  "check_meeting_pos_bh_difficulty P pickle self =
     (case pos_bh_difficulty (coinstake self) of
        Inl e \<Rightarrow> Inl e
      | Inr d \<Rightarrow> Inr (real (count_leading_zeros (fst (calculate_hash P pickle self))) \<ge> d))"

section \<open>Block headers and wrapped blocks (block\_header.py, wrapped\_block.py)\<close>

fun check_included_training_declarations_loop ::
  "primitives \<Rightarrow> bytes \<Rightarrow> TrainingDeclaration list \<Rightarrow> error + bool" where
  "check_included_training_declarations_loop P secret [] = Inr True"
| "check_included_training_declarations_loop P secret (td # tds) =
     (case verify_signature P (Inr (msg_public_key td)) secret
             (Some (training_secret_commitment td)) of
        Inl e \<Rightarrow> Inl e
      | Inr ok \<Rightarrow> if \<not> ok then Inr False
                  else check_included_training_declarations_loop P secret tds)"

definition check_included_training_declarations ::
  "primitives \<Rightarrow> BlockHeader \<Rightarrow> error + bool" where
  "check_included_training_declarations P self =
     check_included_training_declarations_loop P (training_secret self)
       (bh_training_declarations self)"

definition get_id_s :: "ExampleModel \<Rightarrow> string" where
  "get_id_s m = model_id m @ '':'' @ str_int (current_iteration m)"

definition WrappedBlock_init ::
  "primitives \<Rightarrow> string \<Rightarrow> string \<Rightarrow> bytes \<times> bytes \<Rightarrow> User \<Rightarrow> ExampleModel \<Rightarrow> bytes
    \<Rightarrow> Transaction list \<Rightarrow> StakeholderSignature list \<Rightarrow> BlockHeader \<Rightarrow> WrappedBlock" where
  \<comment> \<open>\<open>now\<close>: the clock at the base constructor; \<open>now_tx\<close>: the clock at the coinbase
      transaction; \<open>keys\<close>: the fresh keys of the coinbase user\<close>
  "WrappedBlock_init P now now_tx keys emp_user mdl pub txs sgs bh =
     (let coinbase_user = User_init [] (Some ''Coinbase User'') 0 keys
      in \<lparr>id_m = model_id mdl, id_s = get_id_s mdl, msg_public_key = encode_to_bytes P pub,
          timestamp = now, signature = None,
          wb_block_header = bh,
          wb_coinbase_transaction =
            CoinbaseUser_create_transaction P now_tx coinbase_user (block_index bh) emp_user,
          wb_transactions = txs,
          wb_stakeholders_signatures = sgs\<rparr>)"

fun verify_stakeholder_signatures_loop ::
  "primitives \<Rightarrow> StakeholderSignature list \<Rightarrow> error + bool" where
  "verify_stakeholder_signatures_loop P [] = Inr True"
| "verify_stakeholder_signatures_loop P (ss # rest) =
     (case decode_public_key_from_bytes P (ss_public_key ss) of
        Inl e \<Rightarrow> Inl e
      | Inr key \<Rightarrow>
          (case verify_signature P (Inl key)
                  (fst (dumps_without_sig (pickle_bh P) (ss_block_header ss)))
                  (Some (ss_signature ss)) of
             Inl e \<Rightarrow> Inl e
           | Inr ok \<Rightarrow> if \<not> ok then Inr False
                       else verify_stakeholder_signatures_loop P rest))"

definition verify_stakeholder_signatures :: "primitives \<Rightarrow> WrappedBlock \<Rightarrow> error + bool" where
  "verify_stakeholder_signatures P self =
     verify_stakeholder_signatures_loop P (wb_stakeholders_signatures self)"

section \<open>The employee node (employee.py)\<close>

datatype Message =
    TRANSACTION Transaction
  | BLOCK_HEADER BlockHeader
  | STAKEHOLDER_SIGNATURE StakeholderSignature
  | WRAPPED_BLOCK WrappedBlock
  | TRAINING_DECLARATION TrainingDeclaration
  | EMPLOYEE_ALIVE
  | EMPLOYEE_FINISHED
  | RESULT_LOCAL_BLOCKCHAIN Blockchain

text \<open>
  The state of an employee process after \<open>_download_stage\<close>. \<open>sent\<close> collects what the
  process has written with \<open>connection.send\<close>; \<open>random_state\<close> is the state of the
  process's global generator.
\<close>

record Employee =
  e_name :: string
  e_private_key :: bytes
  e_public_key :: bytes
  blockchain :: Blockchain
  model :: ExampleModel
  training_declaration :: "TrainingDeclaration option"
  e_training_secret :: "bytes option"
  e_block_header :: "BlockHeader option"
  pending_transactions :: "Transaction list"
  training_declarations_book :: TrainingDeclarationsBook
  stakeholder_signatures_book :: StakeholderSignaturesBook
  employee_user :: User
  protocol_restart_flag :: bool
  sent :: "Message list"
  random_state :: rng

datatype alien_message = TD TrainingDeclaration | BH BlockHeader | WB WrappedBlock

definition verify_alien_message_soundness ::
  "primitives \<Rightarrow> Employee \<Rightarrow> alien_message \<Rightarrow> error + bool" where
  "verify_alien_message_soundness P self message =
     (case (case message of
              TD m \<Rightarrow> verify_signature P (Inr (msg_public_key m))
                        (fst (dumps_without_sig (pickle_td P) m)) (signature m)
            | BH m \<Rightarrow> verify_signature P (Inr (msg_public_key m))
                        (fst (dumps_without_sig (pickle_bh P) m)) (signature m)
            | WB m \<Rightarrow> verify_signature P (Inr (msg_public_key m))
                        (fst (dumps_without_sig (pickle_wb P) m)) (signature m)) of
        Inl e \<Rightarrow> Inl e
      | Inr ok \<Rightarrow>
          if \<not> ok then Inr False
          else
            (case message of
               TD m \<Rightarrow>
                 (case check_meeting_pos_td_difficulty P (pickle_td P) m of
                    Inl e \<Rightarrow> Inl e
                  | Inr met \<Rightarrow> if \<not> met then Inr False else Inr True)
             | BH m \<Rightarrow>
                 (case check_meeting_pos_bh_difficulty P (pickle_bh P) m of
                    Inl e \<Rightarrow> Inl e
                  | Inr met \<Rightarrow>
                      if \<not> met then Inr False
                      else
                        (case check_included_training_declarations P m of
                           Inl e \<Rightarrow> Inl e
                         | Inr sound \<Rightarrow> if \<not> sound then Inr False else Inr True))
             | WB m \<Rightarrow>
                 (case verify_stakeholder_signatures P m of
                    Inl e \<Rightarrow> Inl e
                  | Inr valid \<Rightarrow> if \<not> valid then Inr False else Inr True)))"

definition am_i_roy_stakeholder ::
  "primitives \<Rightarrow> Employee \<Rightarrow> BlockHeader \<Rightarrow> error + bool \<times> Employee" where
  "am_i_roy_stakeholder P self bh =
     (case follow_the_coin P (blockchain self) (fst (calculate_hash P (pickle_bh P) bh))
             (random_state self) of
        Inl e \<Rightarrow> Inl e
      | Inr (stakeholders, g) \<Rightarrow>
          (case stakeholders of
             [] \<Rightarrow> Inl IndexError
           | _ \<Rightarrow> Inr (Some (e_name self) = last stakeholders, self\<lparr>random_state := g\<rparr>)))"

definition get_pending_transactions_and_set_employee :: "Employee \<Rightarrow> Transaction list" where
  \<comment> \<open>the stamping is done on a deep copy; the pool itself is not touched\<close>
  "get_pending_transactions_and_set_employee self =
     map (\<lambda>transaction. transaction\<lparr>employee_name := Some (e_name self)\<rparr>)
       (pending_transactions self)"

definition remove_served_trans_from_pending_trans ::
  "Employee \<Rightarrow> Transaction list \<Rightarrow> Employee" where
  "remove_served_trans_from_pending_trans self reg_trans =
     (let served_trans_set = Transaction_set reg_trans;
          pending_trans_set = Transaction_set (pending_transactions self);
          result_trans_set = Transaction_set_difference pending_trans_set served_trans_set
      in self\<lparr>pending_transactions := result_trans_set\<rparr>)"

definition create_wrapped_block ::
  "primitives \<Rightarrow> string \<Rightarrow> string \<Rightarrow> bytes \<times> bytes \<Rightarrow> Employee \<Rightarrow> BlockHeader \<Rightarrow> WrappedBlock" where
  "create_wrapped_block P now now_tx keys self bh =
     (let active_transactions = get_pending_transactions_and_set_employee self;
          stakeholder_signatures =
            get_signatures_for_block_header (stakeholder_signatures_book self)
              (get_id_s (model self)) (fst (get_id P (pickle_bh P) bh))
      in WrappedBlock_init P now now_tx keys (employee_user self) (model self)
           (e_public_key self) active_transactions stakeholder_signatures bh)"

definition perform_roy_stakeholder_procedure ::
  "primitives \<Rightarrow> string \<Rightarrow> string \<Rightarrow> string \<Rightarrow> bytes \<times> bytes \<Rightarrow> Employee \<Rightarrow> BlockHeader
    \<Rightarrow> error + Employee" where
  \<comment> \<open>\<open>now_block\<close>: the clock when the block is appended\<close>
  "perform_roy_stakeholder_procedure P now now_tx now_block keys self bh =
     (let wrapped_block = create_wrapped_block P now now_tx keys self bh;
          wrapped_block1 = sign P (pickle_wb P) (e_private_key self) wrapped_block;
          self1 = self\<lparr>sent := sent self @ [WRAPPED_BLOCK wrapped_block1]\<rparr>
      in case append_fitted_wrapped_block P now_block (blockchain self1) wrapped_block1 of
           Inl e \<Rightarrow> Inl e
         | Inr bc \<Rightarrow>
             (let self2 = self1\<lparr>blockchain := bc\<rparr>;
                  self3 = remove_served_trans_from_pending_trans self2
                            (wb_transactions wrapped_block1)
              in Inr (self3\<lparr>protocol_restart_flag := True\<rparr>)))"

text \<open>
  The body of the loop of \<open>_collect_messages\<close> for one received message of type
  \<open>STAKEHOLDER_SIGNATURE\<close>, and for one of type \<open>WRAPPED_BLOCK\<close>.
\<close>

definition collect_STAKEHOLDER_SIGNATURE ::
  "primitives \<Rightarrow> string \<Rightarrow> string \<Rightarrow> string \<Rightarrow> bytes \<times> bytes \<Rightarrow> Employee
    \<Rightarrow> StakeholderSignature \<Rightarrow> error + Employee" where
  "collect_STAKEHOLDER_SIGNATURE P now now_tx now_block keys self ss =
     (let ids = id_s (ss_block_header ss);
          id_bh = fst (get_id P (pickle_bh P) (ss_block_header ss))
      in case am_i_roy_stakeholder P self (ss_block_header ss) of
           Inl e \<Rightarrow> Inl e
         | Inr (is_roy, self1) \<Rightarrow>
             (let self2 = self1\<lparr>stakeholder_signatures_book :=
                    add_signature_to_book P (stakeholder_signatures_book self1) ss (Some is_roy)\<rparr>
              in if is_roy then
                   (let ss_for_roy_bh_num =
                          get_signatures_num (stakeholder_signatures_book self2) ids id_bh
                    in if ss_for_roy_bh_num \<ge> STAKEHOLDERS_NUM - 1
                       then perform_roy_stakeholder_procedure P now now_tx now_block keys self2
                              (ss_block_header ss)
                       else Inr self2)
                 else Inr self2))"

definition collect_WRAPPED_BLOCK ::
  "primitives \<Rightarrow> string \<Rightarrow> Employee \<Rightarrow> WrappedBlock \<Rightarrow> error + Employee" where
  "collect_WRAPPED_BLOCK P now_block self wb =
     (case get_latest_block (blockchain self) of
        Inl e \<Rightarrow> Inl e
      | Inr latest \<Rightarrow>
          if block_index (wb_block_header wb) \<le> index latest then Inr self
          else
            (case verify_alien_message_soundness P self (WB wb) of
               Inl e \<Rightarrow> Inl e
             | Inr sound \<Rightarrow>
                 if sound then
                   (let self1 = self\<lparr>protocol_restart_flag := True\<rparr>;
                        self2 = self1\<lparr>stakeholder_signatures_book :=
                          StakeholderSignaturesBook_close (stakeholder_signatures_book self1)
                            (id_s wb)\<rparr>
                    in case append_fitted_wrapped_block P now_block (blockchain self2) wb of
                         Inl e \<Rightarrow> Inl e
                       | Inr bc \<Rightarrow>
                           Inr (remove_served_trans_from_pending_trans
                                  (self2\<lparr>blockchain := bc\<rparr>) (wb_transactions wb)))
                 else Inr self))"

text \<open>A run of the loop over received stakeholder signatures.\<close>

fun collect_STAKEHOLDER_SIGNATURES ::
  "primitives \<Rightarrow> string \<Rightarrow> string \<Rightarrow> string \<Rightarrow> bytes \<times> bytes \<Rightarrow> Employee
    \<Rightarrow> StakeholderSignature list \<Rightarrow> error + Employee" where
  "collect_STAKEHOLDER_SIGNATURES P now now_tx now_block keys self [] = Inr self"
| "collect_STAKEHOLDER_SIGNATURES P now now_tx now_block keys self (ss # rest) =
     (case collect_STAKEHOLDER_SIGNATURE P now now_tx now_block keys self ss of
        Inl e \<Rightarrow> Inl e
      | Inr self' \<Rightarrow> collect_STAKEHOLDER_SIGNATURES P now now_tx now_block keys self' rest)"

section \<open>A concrete instance\<close>

text \<open>
  A small instance of the library primitives and a few concrete objects, on which the
  model is evaluated. The toy signature scheme signs by prefixing the key (the public key
  of a private key is the key itself); the toy pickle writes the stage, the timestamp and
  the signature attribute.
\<close>

definition example_primitives :: primitives where
  "example_primitives =
     \<lparr>sha256 = (\<lambda>d. d),
      pickle_td = (\<lambda>td. id_s td @ ''|'' @ timestamp td @ ''|'' @ str_opt (\<lambda>s. s) (signature td)),
      pickle_bh = (\<lambda>bh. id_s bh @ ''|'' @ timestamp bh @ ''|'' @ str_opt (\<lambda>s. s) (signature bh)),
      pickle_wb = (\<lambda>wb. id_s wb @ ''|'' @ timestamp wb @ ''|'' @ str_opt (\<lambda>s. s) (signature wb)),
      ed25519_sign = (\<lambda>k m. k @ m),
      ed25519_verify = (\<lambda>pk s m. s = pk @ m),
      encode_to_bytes = (\<lambda>k. k),
      load_pem_public_key = Some,
      random_seed = length,
      random_sample = (\<lambda>g xs k. (take k xs, Suc g)),
      set_order = remdups,
      str_User = name,
      str_float = (\<lambda>x. ''f''),
      str_Transaction = id,
      str_BlockHeader = id_s,
      str_StakeholderSignature = block_header_id,
      coinbase_reward = (\<lambda>n. 1000)\<rparr>"

definition example_block_header :: BlockHeader where
  "example_block_header =
     \<lparr>id_m = ''m'', id_s = ''m:0'', msg_public_key = ''k1'', timestamp = ''t'',
      signature = Some ''sig'', coinstake = 2,
      parent_block_hash = ''h0'', block_index = 1, training_secret = ''secret'',
      bh_training_declarations = []\<rparr>"

definition example_signature :: StakeholderSignature where
  "example_signature =
     \<lparr>ss_block_header = example_block_header, block_header_id = ''6d3a307c'',
      ss_public_key = ''k2'', ss_signature = ''k2m:0|t|None''\<rparr>"

definition example_training_declaration :: TrainingDeclaration where
  "example_training_declaration =
     \<lparr>id_m = ''m'', id_s = ''m:0'', msg_public_key = ''k1'', timestamp = ''t'',
      signature = Some ''sig'', coinstake = 4,
      training_secret_commitment = ''k1secret'', h_s = ''00''\<rparr>"

definition example_closed_td_book :: TrainingDeclarationsBook where
  "example_closed_td_book =
     \<lparr>td_book = [''m:0'' \<mapsto> \<lparr>td_open = False, training_declarations = []\<rparr>],
      td_owner_name = ''Employee-1''\<rparr>"

definition example_closed_book :: StakeholderSignaturesBook where
  "example_closed_book =
     \<lparr>ss_book = [''m:0'' \<mapsto> \<lparr>ss_open = False, sh_info = Map.empty\<rparr>],
      ss_owner_name = ''Employee-1''\<rparr>"

definition example_user :: "string \<Rightarrow> User" where
  "example_user n = User_init [] (Some n) 10 (''priv-'' @ n, ''pub-'' @ n)"

definition example_transaction :: "string \<Rightarrow> string \<Rightarrow> Transaction" where
  "example_transaction now emp =
     create_transaction example_primitives now (example_user ''Alice'') 1 (example_user ''Bob'')
       (Some emp)"

definition example_wrapped_block :: WrappedBlock where
  "example_wrapped_block =
     WrappedBlock_init example_primitives ''t1'' ''t2'' (''cpriv'', ''cpub'')
       (example_user ''Employee-3'') \<lparr>model_id = ''m'', current_iteration = 0\<rparr> ''k3''
       [example_transaction ''t0'' ''Employee-3''] [example_signature] example_block_header"

definition example_genesis_chain :: Blockchain where
  "example_genesis_chain =
     append_genesis_block example_primitives (\<lambda>i. ''t'') (''a'', ''A'') (''b'', ''B'')
       [''Employee-1'', ''Employee-2'', ''Employee-3''] (Blockchain_init ''Employee-3'')"



definition example_signature_1 :: StakeholderSignature where
  "example_signature_1 =
     \<lparr>ss_block_header = example_block_header, block_header_id = ''6d3a307c'',
      ss_public_key = ''k1'', ss_signature = ''k1m:0|t|None''\<rparr>"

definition example_employee :: Employee where
  "example_employee =
     \<lparr>e_name = ''Employee-3'', e_private_key = ''k3'', e_public_key = ''k3'',
      blockchain = example_genesis_chain,
      model = \<lparr>model_id = ''m'', current_iteration = 0\<rparr>,
      training_declaration = None, e_training_secret = None, e_block_header = None,
      pending_transactions = [example_transaction ''t0'' ''-''],
      training_declarations_book = TrainingDeclarationsBook_init ''Employee-3'',
      stakeholder_signatures_book = StakeholderSignaturesBook_init ''Employee-3'',
      employee_user = example_user ''Employee-3'',
      protocol_restart_flag = False, sent = [], random_state = 0\<rparr>"

definition example_stale_wrapped_block :: WrappedBlock where
  "example_stale_wrapped_block =
     example_wrapped_block\<lparr>wb_block_header := example_block_header\<lparr>block_index := 0\<rparr>\<rparr>"

section \<open>Properties\<close>

subsection \<open>Serialization without the signature\<close>

lemma dumps_without_sig_snd [simp]: "snd (dumps_without_sig pickle m) = m"
  by (simp add: dumps_without_sig_def Let_def)

lemma calculate_hash_snd [simp]: "snd (calculate_hash P pickle m) = m"
  by (simp add: calculate_hash_def dumps_without_sig_def Let_def)

lemma get_id_snd [simp]: "snd (get_id P pickle m) = m"
  by (simp add: get_id_def calculate_hash_def dumps_without_sig_def Let_def)

text \<open>
  Claim C9. \<open>dumps_without_sig\<close>, and with it \<open>calculate_hash\<close> and \<open>get_id\<close>, leave the
  message as it was: the signature after the call is the signature before it and no other
  field changes. The signature is \<open>None\<close> only in the object that is pickled.
\<close>

theorem dumps_without_sig_frame:
  "dumps_without_sig pickle m = (pickle (m\<lparr>signature := None\<rparr>), m)
   \<and> snd (calculate_hash P pickle m) = m
   \<and> snd (get_id P pickle m) = m"
  by (simp add: dumps_without_sig_def calculate_hash_def get_id_def Let_def split: prod.splits)

subsection \<open>The books\<close>

text \<open>
  Claim C10. On a stage that no entry exists for, the two books answer differently: the
  training declarations book raises \<open>KeyError\<close> from \<open>close\<close> and from
  \<open>get_training_declarations\<close> and returns 0 from \<open>get_training_declarations_num\<close>; the
  stakeholder signatures book returns from \<open>close\<close> without an error and unchanged,
  gives the empty list and 0 for the signatures, and reports the stage open.
\<close>

theorem unknown_stage_queries:
  assumes "td_book tdb ids = None" and "ss_book ssb ids = None"
  shows "TrainingDeclarationsBook_close tdb ids = Inl KeyError
       \<and> get_training_declarations tdb ids = Inl KeyError
       \<and> get_training_declarations_num tdb ids = 0
       \<and> StakeholderSignaturesBook_close ssb ids = ssb
       \<and> get_signatures_for_block_header ssb ids id_bh = []
       \<and> get_signatures_num ssb ids id_bh = 0
       \<and> is_open ssb ids"
  using assms
  by (simp add: TrainingDeclarationsBook_close_def get_training_declarations_def
      get_training_declarations_num_def StakeholderSignaturesBook_close_def
      get_signatures_for_block_header_def get_signatures_num_def is_open_def)

theorem unknown_stage_queries_witness:
  "td_book (add_training_declaration_to_book (TrainingDeclarationsBook_init ''Employee-1'')
       example_training_declaration) ''m:1'' = None
   \<and> ss_book (add_signature_to_book example_primitives
       (StakeholderSignaturesBook_init ''Employee-1'') example_signature None) ''m:1'' = None
   \<and> TrainingDeclarationsBook_close
        (add_training_declaration_to_book (TrainingDeclarationsBook_init ''Employee-1'')
           example_training_declaration) ''m:1'' = Inl KeyError
   \<and> get_training_declarations
        (add_training_declaration_to_book (TrainingDeclarationsBook_init ''Employee-1'')
           example_training_declaration) ''m:1'' = Inl KeyError
   \<and> get_training_declarations_num
        (add_training_declaration_to_book (TrainingDeclarationsBook_init ''Employee-1'')
           example_training_declaration) ''m:1'' = 0
   \<and> StakeholderSignaturesBook_close
        (add_signature_to_book example_primitives
           (StakeholderSignaturesBook_init ''Employee-1'') example_signature None) ''m:1''
        = add_signature_to_book example_primitives
           (StakeholderSignaturesBook_init ''Employee-1'') example_signature None
   \<and> get_signatures_for_block_header
        (add_signature_to_book example_primitives
           (StakeholderSignaturesBook_init ''Employee-1'') example_signature None)
        ''m:1'' ''6d3a307c'' = []
   \<and> get_signatures_num
        (add_signature_to_book example_primitives
           (StakeholderSignaturesBook_init ''Employee-1'') example_signature None)
        ''m:1'' ''6d3a307c'' = 0
   \<and> is_open
        (add_signature_to_book example_primitives
           (StakeholderSignaturesBook_init ''Employee-1'') example_signature None) ''m:1''"
proof -
  let ?tdb = "add_training_declaration_to_book (TrainingDeclarationsBook_init ''Employee-1'')
       example_training_declaration"
  let ?ssb = "add_signature_to_book example_primitives
       (StakeholderSignaturesBook_init ''Employee-1'') example_signature None"
  have a: "td_book ?tdb ''m:1'' = None"
    by (simp add: add_training_declaration_to_book_def TrainingDeclarationsBook_init_def
        example_training_declaration_def Let_def)
  have b: "ss_book ?ssb ''m:1'' = None"
    by (simp add: add_signature_to_book_def StakeholderSignaturesBook_init_def
        example_signature_def example_block_header_def Let_def)
  from unknown_stage_queries [OF a b, of "''6d3a307c''"] a b show ?thesis
    by simp
qed

text \<open>
  Claim C6, as stated, fails for the stakeholder signatures book: the entry for the
  header is created before the stage is tested for being closed. On a closed stage
  without an entry for the header, the add leaves a book that differs from the one it
  was given.
\<close>

theorem closed_add_counterexample:
  "\<not> ss_open (the (ss_book example_closed_book (id_s (ss_block_header example_signature))))
   \<and> add_signature_to_book example_primitives example_closed_book example_signature None
       \<noteq> example_closed_book"
proof -
  let ?k = "fst (get_id example_primitives (pickle_bh example_primitives) example_block_header)"
  have "sh_info (the (ss_book (add_signature_to_book example_primitives example_closed_book
          example_signature None) ''m:0'')) ?k = Some \<lparr>sigs = [], roy = None\<rparr>"
    by (simp add: add_signature_to_book_def example_closed_book_def example_signature_def
        example_block_header_def Let_def)
  moreover have "sh_info (the (ss_book example_closed_book ''m:0'')) ?k = None"
    by (simp add: example_closed_book_def)
  ultimately have "add_signature_to_book example_primitives example_closed_book
      example_signature None \<noteq> example_closed_book"
    by auto
  then show ?thesis
    by (simp add: example_closed_book_def example_signature_def example_block_header_def)
qed

text \<open>
  Claim C6, amended. An add to a closed stage of the training declarations book changes
  nothing. An add to a closed stage of the stakeholder signatures book appends no
  signature and leaves the stage closed: every query (\<open>get_signatures_for_block_header\<close>,
  \<open>get_signatures_num\<close>, \<open>is_open\<close>) answers as before; the book is unchanged when
  the stage has an entry for the header, and gains an empty entry for it otherwise.
\<close>

theorem closed_stage_add:
  assumes "td_book tdb (id_s td) = Some tst" and "\<not> td_open tst"
    and "ss_book ssb (id_s (ss_block_header ss)) = Some sst" and "\<not> ss_open sst"
  shows "add_training_declaration_to_book tdb td = tdb
       \<and> add_signature_to_book P ssb ss r =
           ssb\<lparr>ss_book := (ss_book ssb)(id_s (ss_block_header ss) \<mapsto>
             sst\<lparr>sh_info := (sh_info sst)(fst (get_id P (pickle_bh P) (ss_block_header ss)) \<mapsto>
               (case sh_info sst (fst (get_id P (pickle_bh P) (ss_block_header ss))) of
                  None \<Rightarrow> \<lparr>sigs = [], roy = r\<rparr> | Some i \<Rightarrow> i))\<rparr>)\<rparr>
       \<and> (\<forall>s h. get_signatures_for_block_header (add_signature_to_book P ssb ss r) s h
                  = get_signatures_for_block_header ssb s h)
       \<and> (\<forall>s h. get_signatures_num (add_signature_to_book P ssb ss r) s h
                  = get_signatures_num ssb s h)
       \<and> (\<forall>s. is_open (add_signature_to_book P ssb ss r) s = is_open ssb s)
       \<and> (sh_info sst (fst (get_id P (pickle_bh P) (ss_block_header ss))) \<noteq> None
            \<longrightarrow> add_signature_to_book P ssb ss r = ssb)"
proof -
  let ?k = "fst (get_id P (pickle_bh P) (ss_block_header ss))"
  let ?info = "case sh_info sst ?k of None \<Rightarrow> \<lparr>sigs = [], roy = r\<rparr> | Some i \<Rightarrow> i"
  have td: "add_training_declaration_to_book tdb td = tdb"
    using assms(1,2) by (simp add: add_training_declaration_to_book_def Let_def fun_upd_idem)
  have ss: "add_signature_to_book P ssb ss r =
      ssb\<lparr>ss_book := (ss_book ssb)(id_s (ss_block_header ss) \<mapsto>
             sst\<lparr>sh_info := (sh_info sst)(?k \<mapsto> ?info)\<rparr>)\<rparr>"
    using assms(3,4) by (simp add: add_signature_to_book_def Let_def)
  have sigs: "\<forall>s h. get_signatures_for_block_header (add_signature_to_book P ssb ss r) s h
                  = get_signatures_for_block_header ssb s h"
    using assms(3) unfolding ss
    by (auto simp add: get_signatures_for_block_header_def split: option.splits)
  have num: "\<forall>s h. get_signatures_num (add_signature_to_book P ssb ss r) s h
                  = get_signatures_num ssb s h"
    using assms(3) unfolding ss
    by (auto simp add: get_signatures_num_def split: option.splits)
  have opn: "\<forall>s. is_open (add_signature_to_book P ssb ss r) s = is_open ssb s"
    using assms(3) unfolding ss by (auto simp add: is_open_def split: option.splits)
  have same: "sh_info sst ?k \<noteq> None \<longrightarrow> add_signature_to_book P ssb ss r = ssb"
  proof
    assume "sh_info sst ?k \<noteq> None"
    then obtain i where i: "sh_info sst ?k = Some i" by auto
    have "(sh_info sst)(?k \<mapsto> i) = sh_info sst" using i by (simp add: fun_upd_idem)
    then have "(ss_book ssb)(id_s (ss_block_header ss) \<mapsto> sst\<lparr>sh_info := (sh_info sst)(?k \<mapsto> i)\<rparr>) = ss_book ssb"
      using assms(3) by (simp add: fun_upd_idem)
    then show "add_signature_to_book P ssb ss r = ssb"
      unfolding ss using i by simp
  qed
  from td ss sigs num opn same show ?thesis by blast
qed

theorem closed_stage_add_witness:
  "td_book example_closed_td_book (id_s example_training_declaration)
      = Some \<lparr>td_open = False, training_declarations = []\<rparr>
   \<and> ss_book example_closed_book (id_s (ss_block_header example_signature))
      = Some \<lparr>ss_open = False, sh_info = Map.empty\<rparr>
   \<and> add_training_declaration_to_book example_closed_td_book example_training_declaration
      = example_closed_td_book
   \<and> get_signatures_num
        (add_signature_to_book example_primitives example_closed_book example_signature None)
        ''m:0'' ''6d3a307c'' = 0
   \<and> \<not> is_open
        (add_signature_to_book example_primitives example_closed_book example_signature None)
        ''m:0''"
proof -
  have a: "td_book example_closed_td_book (id_s example_training_declaration)
      = Some \<lparr>td_open = False, training_declarations = []\<rparr>"
    by (simp add: example_closed_td_book_def example_training_declaration_def)
  have b: "ss_book example_closed_book (id_s (ss_block_header example_signature))
      = Some \<lparr>ss_open = False, sh_info = Map.empty\<rparr>"
    by (simp add: example_closed_book_def example_signature_def example_block_header_def)
  have c: "get_signatures_num example_closed_book ''m:0'' ''6d3a307c'' = 0"
    by (simp add: get_signatures_num_def example_closed_book_def)
  have d: "\<not> is_open example_closed_book ''m:0''"
    by (simp add: is_open_def example_closed_book_def)
  have e: "\<not> td_open \<lparr>td_open = False, training_declarations = []\<rparr>"
    and f: "\<not> ss_open \<lparr>ss_open = False, sh_info = Map.empty\<rparr>"
    by simp_all
  note inst = closed_stage_add [OF a e b f, of example_primitives None]
  from inst have "add_training_declaration_to_book example_closed_td_book
      example_training_declaration = example_closed_td_book"
    by blast
  moreover from inst have "get_signatures_num
      (add_signature_to_book example_primitives example_closed_book example_signature None)
      ''m:0'' ''6d3a307c'' = get_signatures_num example_closed_book ''m:0'' ''6d3a307c''"
    by blast
  moreover from inst have "is_open
      (add_signature_to_book example_primitives example_closed_book example_signature None)
      ''m:0'' = is_open example_closed_book ''m:0''"
    by blast
  ultimately show ?thesis using a b c d by simp
qed

subsection \<open>Transactions\<close>

lemma Transaction_set_ids: "id ` set (Transaction_set ts) = id ` set ts"
proof (induction ts)
  case Nil
  then show ?case by simp
next
  case (Cons t ts)
  have "id ` set (filter (\<lambda>u. \<not> Transaction_eq u t) (Transaction_set ts)) \<union> {id t}
      = id ` set (Transaction_set ts) \<union> {id t}"
    by (auto simp add: Transaction_eq_def)
  with Cons show ?case by auto
qed

lemma Transaction_set_difference_ids:
  "id ` set ys = id ` set zs \<Longrightarrow>
   Transaction_set_difference xs ys = Transaction_set_difference xs zs"
proof -
  assume eq: "id ` set ys = id ` set zs"
  have "\<And>t. list_ex (\<lambda>u. Transaction_eq t u) ys = (id t \<in> id ` set ys)"
    by (auto simp add: list_ex_iff Transaction_eq_def)
  moreover have "\<And>t. list_ex (\<lambda>u. Transaction_eq t u) zs = (id t \<in> id ` set zs)"
    by (auto simp add: list_ex_iff Transaction_eq_def)
  ultimately show ?thesis
    using eq by (simp add: Transaction_set_difference_def)
qed

lemma Transaction_set_distinct_ids: "distinct (map id (Transaction_set ts))"
proof (induction ts)
  case Nil
  then show ?case by simp
next
  case (Cons t ts)
  have "distinct (map id (filter (\<lambda>u. \<not> Transaction_eq u t) (Transaction_set ts)))"
    using Cons by (simp add: distinct_map_filter)
  moreover have "id t \<notin> id ` set (filter (\<lambda>u. \<not> Transaction_eq u t) (Transaction_set ts))"
    by (auto simp add: Transaction_eq_def)
  ultimately show ?case by simp
qed

lemma Transaction_set_difference_member:
  "(x \<in> set (Transaction_set_difference xs ys)) = (x \<in> set xs \<and> id x \<notin> id ` set ys)"
  by (auto simp add: Transaction_set_difference_def list_ex_iff Transaction_eq_def)

text \<open>
  Claim C8. The id of a transaction is the SHA-256 hex digest of the string forms of
  sender, amount, receiver and timestamp, whatever the employee name given at
  construction. Equality of transactions is equality of their ids and the hash of a
  transaction is the hash of its id. \<open>set_employee_name\<close> changes the employee name and
  nothing else: sender, amount, receiver, timestamp and id are as before, and so are
  equality and hash. The stamping done by the Roy node sets the employee name of each
  copied transaction and keeps every sender, amount, receiver, timestamp and id. A set of
  transactions holds one element per id; a transaction is in a set difference when it is
  in the first set and its id is the id of no element of the second. So removing stamped
  transactions from a pending pool removes what removing the unstamped ones does, and the
  pool is empty after its own stamped copy has been served.
\<close>

theorem transaction_id_stable:
  "id (Transaction_init P now s a r emp)
      = hex (sha256 P (encode (str_User P s @ str_float P a @ str_User P r @ now)))
   \<and> id (Transaction_init P now s a r emp) = id (Transaction_init P now s a r emp')
   \<and> set_employee_name t n = t\<lparr>employee_name := Some n\<rparr>
   \<and> id (set_employee_name t n) = id t
   \<and> Transaction_eq (set_employee_name t n) u = Transaction_eq t u
   \<and> Transaction_eq u (set_employee_name t n) = Transaction_eq u t
   \<and> Transaction_hash h (set_employee_name t n) = Transaction_hash h t
   \<and> map id (get_pending_transactions_and_set_employee e) = map id (pending_transactions e)
   \<and> remove_served_trans_from_pending_trans e (map (\<lambda>t. set_employee_name t n) reg)
        = remove_served_trans_from_pending_trans e reg
   \<and> pending_transactions (remove_served_trans_from_pending_trans e
        (get_pending_transactions_and_set_employee e)) = []
   \<and> Transaction_eq t u = (id t = id u)
   \<and> Transaction_hash h t = h (id t)
   \<and> sender (set_employee_name t n) = sender t
   \<and> amount (set_employee_name t n) = amount t
   \<and> receiver (set_employee_name t n) = receiver t
   \<and> tx_timestamp (set_employee_name t n) = tx_timestamp t
   \<and> get_pending_transactions_and_set_employee e
        = map (\<lambda>t. t\<lparr>employee_name := Some (e_name e)\<rparr>) (pending_transactions e)
   \<and> map sender (get_pending_transactions_and_set_employee e)
        = map sender (pending_transactions e)
   \<and> map amount (get_pending_transactions_and_set_employee e)
        = map amount (pending_transactions e)
   \<and> map receiver (get_pending_transactions_and_set_employee e)
        = map receiver (pending_transactions e)
   \<and> map tx_timestamp (get_pending_transactions_and_set_employee e)
        = map tx_timestamp (pending_transactions e)
   \<and> id ` set (Transaction_set ts) = id ` set ts
   \<and> distinct (map id (Transaction_set ts))
   \<and> (x \<in> set (Transaction_set_difference xs ys)) = (x \<in> set xs \<and> id x \<notin> id ` set ys)
   \<and> (x \<in> set (pending_transactions (remove_served_trans_from_pending_trans e reg)))
        = (x \<in> set (Transaction_set (pending_transactions e)) \<and> id x \<notin> id ` set reg)"
proof -
  have a: "remove_served_trans_from_pending_trans e (map (\<lambda>t. set_employee_name t n) reg)
        = remove_served_trans_from_pending_trans e reg"
  proof -
    have "id ` set (Transaction_set (map (\<lambda>t. set_employee_name t n) reg))
        = id ` set (Transaction_set reg)"
      by (simp add: Transaction_set_ids set_employee_name_def image_image)
    then have "Transaction_set_difference (Transaction_set (pending_transactions e))
          (Transaction_set (map (\<lambda>t. set_employee_name t n) reg))
        = Transaction_set_difference (Transaction_set (pending_transactions e))
          (Transaction_set reg)"
      by (rule Transaction_set_difference_ids)
    then show ?thesis
      by (simp add: remove_served_trans_from_pending_trans_def Let_def)
  qed
  have b: "pending_transactions (remove_served_trans_from_pending_trans e
        (get_pending_transactions_and_set_employee e)) = []"
  proof -
    let ?st = "get_pending_transactions_and_set_employee e"
    let ?pd = "Transaction_set (pending_transactions e)"
    have ids: "id ` set (Transaction_set ?st) = id ` set ?pd"
      by (simp add: Transaction_set_ids get_pending_transactions_and_set_employee_def image_image)
    have same: "Transaction_set_difference ?pd (Transaction_set ?st)
        = Transaction_set_difference ?pd ?pd"
      using ids by (rule Transaction_set_difference_ids)
    have "Transaction_set_difference ?pd ?pd = []"
      by (auto simp add: Transaction_set_difference_def list_ex_iff Transaction_eq_def
          filter_empty_conv)
    with same show ?thesis
      by (simp add: remove_served_trans_from_pending_trans_def Let_def)
  qed
  have c: "map id (get_pending_transactions_and_set_employee e) = map id (pending_transactions e)"
    by (simp add: get_pending_transactions_and_set_employee_def)
  have d: "id (Transaction_init P now s a r emp)
      = hex (sha256 P (encode (str_User P s @ str_float P a @ str_User P r @ now)))
   \<and> id (Transaction_init P now s a r emp) = id (Transaction_init P now s a r emp')"
    by (simp add: Transaction_init_def Let_def)
  have f: "set_employee_name t n = t\<lparr>employee_name := Some n\<rparr>
   \<and> id (set_employee_name t n) = id t
   \<and> Transaction_eq (set_employee_name t n) u = Transaction_eq t u
   \<and> Transaction_eq u (set_employee_name t n) = Transaction_eq u t
   \<and> Transaction_hash h (set_employee_name t n) = Transaction_hash h t"
    by (simp add: set_employee_name_def Transaction_eq_def Transaction_hash_def)
  have g: "Transaction_eq t u = (id t = id u) \<and> Transaction_hash h t = h (id t)"
    by (simp add: Transaction_eq_def Transaction_hash_def)
  have k: "sender (set_employee_name t n) = sender t
   \<and> amount (set_employee_name t n) = amount t
   \<and> receiver (set_employee_name t n) = receiver t
   \<and> tx_timestamp (set_employee_name t n) = tx_timestamp t"
    by (simp add: set_employee_name_def)
  have l: "get_pending_transactions_and_set_employee e
        = map (\<lambda>t. t\<lparr>employee_name := Some (e_name e)\<rparr>) (pending_transactions e)
   \<and> map sender (get_pending_transactions_and_set_employee e)
        = map sender (pending_transactions e)
   \<and> map amount (get_pending_transactions_and_set_employee e)
        = map amount (pending_transactions e)
   \<and> map receiver (get_pending_transactions_and_set_employee e)
        = map receiver (pending_transactions e)
   \<and> map tx_timestamp (get_pending_transactions_and_set_employee e)
        = map tx_timestamp (pending_transactions e)"
    by (simp add: get_pending_transactions_and_set_employee_def)
  have m: "id ` set (Transaction_set ts) = id ` set ts"
    by (rule Transaction_set_ids)
  have o: "distinct (map id (Transaction_set ts))"
    by (rule Transaction_set_distinct_ids)
  have q: "(x \<in> set (Transaction_set_difference xs ys))
        = (x \<in> set xs \<and> id x \<notin> id ` set ys)"
    by (rule Transaction_set_difference_member)
  have r: "(x \<in> set (pending_transactions (remove_served_trans_from_pending_trans e reg)))
        = (x \<in> set (Transaction_set (pending_transactions e)) \<and> id x \<notin> id ` set reg)"
    by (simp add: remove_served_trans_from_pending_trans_def Let_def
        Transaction_set_difference_member Transaction_set_ids)
  from a b c d f g k l m o q r show ?thesis by blast
qed

subsection \<open>Block hash\<close>

text \<open>
  Claim C3 does not hold of the code. The hash of a block without transactions is the
  SHA-256 of the string forms of its stakeholder signatures alone (of the empty string
  when there are none): index, previous hash, timestamp, header and coinbase transaction
  do not enter. The hash of a block with transactions covers index, previous hash,
  timestamp, header, coinbase transaction and the transactions, and not the stakeholder
  signatures.
\<close>

theorem block_hash_omits_fields:
  "hash (Block_init P idx prev ts bh cb [] sgs)
     = sha256 P (encode (concat (map (str_StakeholderSignature P)
                                   (case sgs of None \<Rightarrow> [] | Some l \<Rightarrow> l))))
   \<and> hash (Block_init P idx prev ts bh cb (t # txs) sgs)
     = sha256 P (encode (str_int idx @ hex prev @ ts @ str_opt (str_BlockHeader P) bh
                  @ str_opt (str_Transaction P) cb
                  @ concat (map (str_Transaction P) (t # txs))))"
  by (simp add: Block_init_def Block_calculate_hash_def Block_data_def Let_def
      split: option.splits list.splits)

subsection \<open>The chain\<close>

lemma linked_snoc:
  assumes "\<forall>i. 1 \<le> i \<and> i < length bs \<longrightarrow> Q (bs ! (i - 1)) (bs ! i)"
    and "bs \<noteq> []" and "Q (last bs) b"
  shows "\<forall>i. 1 \<le> i \<and> i < length (bs @ [b]) \<longrightarrow> Q ((bs @ [b]) ! (i - 1)) ((bs @ [b]) ! i)"
proof (intro allI impI)
  fix i
  assume i: "1 \<le> i \<and> i < length (bs @ [b])"
  show "Q ((bs @ [b]) ! (i - 1)) ((bs @ [b]) ! i)"
  proof (cases "i < length bs")
    case True
    with i have "i - 1 < length bs" by simp
    with True i assms(1) show ?thesis by (simp add: nth_append)
  next
    case False
    with i have "i = length bs" by simp
    with assms(2,3) show ?thesis by (simp add: nth_append last_conv_nth)
  qed
qed

lemma append_fitted_wrapped_block_chain:
  assumes "chain bc \<noteq> []"
  shows "\<exists>b. append_fitted_wrapped_block P now bc wb = Inr (add_block bc b)
          \<and> previous_hash b = hash (last (chain bc)) \<and> index b = index (last (chain bc)) + 1"
proof -
  let ?b = "Block_init P (index (last (chain bc)) + 1) (hash (last (chain bc))) now
              (Some (wb_block_header wb)) (Some (wb_coinbase_transaction wb))
              (wb_transactions wb) (Some (wb_stakeholders_signatures wb))"
  have latest: "get_latest_block bc = Inr (last (chain bc))"
    using assms by (cases "chain bc") (simp_all add: get_latest_block_def)
  have "append_fitted_wrapped_block P now bc wb = Inr (add_block bc ?b)"
    by (simp add: append_fitted_wrapped_block_def latest Let_def)
  moreover have "previous_hash ?b = hash (last (chain bc))"
    and "index ?b = index (last (chain bc)) + 1"
    by (simp_all add: Block_init_def Let_def)
  ultimately show ?thesis by blast
qed

lemma append_fitted_wrapped_blocks_linked:
  assumes "chain bc \<noteq> []"
    and "\<forall>i. 1 \<le> i \<and> i < length (chain bc) \<longrightarrow>
           previous_hash (chain bc ! i) = hash (chain bc ! (i - 1))
           \<and> index (chain bc ! i) = index (chain bc ! (i - 1)) + 1"
  shows "\<exists>bc'. append_fitted_wrapped_blocks P bc wbs = Inr bc'
          \<and> length (chain bc') = length (chain bc) + length wbs
          \<and> (\<forall>i. 1 \<le> i \<and> i < length (chain bc') \<longrightarrow>
                previous_hash (chain bc' ! i) = hash (chain bc' ! (i - 1))
                \<and> index (chain bc' ! i) = index (chain bc' ! (i - 1)) + 1)"
  using assms
proof (induction wbs arbitrary: bc)
  case Nil
  then show ?case by simp
next
  case (Cons x wbs)
  obtain now wb where x: "x = (now, wb)" by (cases x)
  from append_fitted_wrapped_block_chain [OF Cons.prems(1)]
  obtain b where b: "append_fitted_wrapped_block P now bc wb = Inr (add_block bc b)"
    "previous_hash b = hash (last (chain bc))" "index b = index (last (chain bc)) + 1"
    by blast
  let ?bc = "add_block bc b"
  have ch: "chain ?bc = chain bc @ [b]" by (simp add: add_block_def)
  have ne: "chain ?bc \<noteq> []" by (simp add: ch)
  have "\<forall>i. 1 \<le> i \<and> i < length (chain bc @ [b]) \<longrightarrow>
           previous_hash ((chain bc @ [b]) ! i) = hash ((chain bc @ [b]) ! (i - 1))
           \<and> index ((chain bc @ [b]) ! i) = index ((chain bc @ [b]) ! (i - 1)) + 1"
    by (rule linked_snoc [where Q = "\<lambda>p c. previous_hash c = hash p \<and> index c = index p + 1"])
       (use Cons.prems b in simp_all)
  then have lk: "\<forall>i. 1 \<le> i \<and> i < length (chain ?bc) \<longrightarrow>
           previous_hash (chain ?bc ! i) = hash (chain ?bc ! (i - 1))
           \<and> index (chain ?bc ! i) = index (chain ?bc ! (i - 1)) + 1"
    by (simp only: ch)
  from Cons.IH [OF ne lk] obtain bc' where bc':
    "append_fitted_wrapped_blocks P ?bc wbs = Inr bc'"
    "length (chain bc') = length (chain ?bc) + length wbs"
    "\<forall>i. 1 \<le> i \<and> i < length (chain bc') \<longrightarrow>
                previous_hash (chain bc' ! i) = hash (chain bc' ! (i - 1))
                \<and> index (chain bc' ! i) = index (chain bc' ! (i - 1)) + 1"
    by blast
  have "append_fitted_wrapped_blocks P bc (x # wbs) = Inr bc'"
    using x b(1) bc'(1) by simp
  moreover have "length (chain bc') = length (chain bc) + length (x # wbs)"
    using bc'(2) ch by simp
  ultimately show ?case using bc'(3) by blast
qed

text \<open>
  Claim C4. A chain built by \<open>append_genesis_block\<close> on an empty chain, followed by any
  sequence of \<open>append_fitted_wrapped_block\<close> calls, is built without an error, has one
  block per call, and every block from the second on carries the hash of its predecessor
  as \<open>previous_hash\<close> and the predecessor's index plus one. The wrapped blocks are
  arbitrary: whether \<open>parent_block_hash\<close> equals the hash of the tip plays no role.
\<close>

theorem chain_links:
  "\<exists>bc. append_fitted_wrapped_blocks P
           (append_genesis_block P clock keys_a keys_b names (Blockchain_init owner)) wbs = Inr bc
        \<and> length (chain bc) = Suc (length wbs)
        \<and> (\<forall>i. 1 \<le> i \<and> i < length (chain bc) \<longrightarrow>
              previous_hash (chain bc ! i) = hash (chain bc ! (i - 1))
              \<and> index (chain bc ! i) = index (chain bc ! (i - 1)) + 1)"
proof -
  let ?g = "append_genesis_block P clock keys_a keys_b names (Blockchain_init owner)"
  have len: "length (chain ?g) = 1"
    by (simp add: append_genesis_block_def add_block_def Blockchain_init_def Let_def)
  then have ne: "chain ?g \<noteq> []" by auto
  have lk: "\<forall>i. 1 \<le> i \<and> i < length (chain ?g) \<longrightarrow>
           previous_hash (chain ?g ! i) = hash (chain ?g ! (i - 1))
           \<and> index (chain ?g ! i) = index (chain ?g ! (i - 1)) + 1"
    using len by simp
  from append_fitted_wrapped_blocks_linked [OF ne lk, of P wbs] len
  show ?thesis by simp
qed

lemma str_int_0: "str_int 0 = ''0''"
  by (simp add: str_int_def str_nat.simps hex_digit_def)

theorem chain_links_witness:
  "\<exists>bc. append_fitted_wrapped_blocks example_primitives example_genesis_chain
            [(''t3'', example_wrapped_block)] = Inr bc
        \<and> fork_happened (last (chain example_genesis_chain)) example_wrapped_block
        \<and> 1 \<le> (1::nat) \<and> 1 < length (chain bc)
        \<and> previous_hash (chain bc ! 1) = hash (chain bc ! 0)
        \<and> index (chain bc ! 1) = index (chain bc ! 0) + 1"
proof -
  have fork: "fork_happened (last (chain example_genesis_chain)) example_wrapped_block"
    by (simp add: fork_happened_def example_genesis_chain_def append_genesis_block_def
        add_block_def Blockchain_init_def Block_init_def Block_calculate_hash_def Block_data_def
        Let_def example_wrapped_block_def WrappedBlock_init_def example_block_header_def
        example_primitives_def encode_def str_int_0)
  from chain_links [of example_primitives "\<lambda>i. ''t''" "(''a'', ''A'')" "(''b'', ''B'')"
      "[''Employee-1'', ''Employee-2'', ''Employee-3'']" "''Employee-3''"
      "[(''t3'', example_wrapped_block)]"]
  obtain bc where bc: "append_fitted_wrapped_blocks example_primitives example_genesis_chain
            [(''t3'', example_wrapped_block)] = Inr bc"
    "length (chain bc) = 2"
    "\<forall>i. 1 \<le> i \<and> i < length (chain bc) \<longrightarrow>
              previous_hash (chain bc ! i) = hash (chain bc ! (i - 1))
              \<and> index (chain bc ! i) = index (chain bc ! (i - 1)) + 1"
    unfolding example_genesis_chain_def by auto
  from bc(3) have "1 \<le> (1::nat) \<and> 1 < length (chain bc) \<longrightarrow>
              previous_hash (chain bc ! 1) = hash (chain bc ! (1 - 1))
              \<and> index (chain bc ! 1) = index (chain bc ! (1 - 1)) + 1"
    by (rule spec)
  with bc(2) have "previous_hash (chain bc ! 1) = hash (chain bc ! 0)
        \<and> index (chain bc ! 1) = index (chain bc ! 0) + 1"
    by simp
  with bc fork show ?thesis by auto
qed



subsection \<open>The employee node\<close>

lemmas example_defs =
  example_employee_def example_genesis_chain_def example_transaction_def example_user_def
  example_signature_def example_signature_1_def example_block_header_def example_primitives_def

lemmas employee_defs =
  collect_STAKEHOLDER_SIGNATURE_def am_i_roy_stakeholder_def
  follow_the_coin_def calculate_hash_def get_id_def dumps_without_sig_def add_signature_to_book_def
  get_signatures_num_def is_open_def perform_roy_stakeholder_procedure_def create_wrapped_block_def
  get_pending_transactions_and_set_employee_def get_signatures_for_block_header_def
  WrappedBlock_init_def sign_def set_signature_def sign_message_def append_fitted_wrapped_block_def
  get_latest_block_def add_block_def Block_init_def Block_calculate_hash_def Block_data_def
  remove_served_trans_from_pending_trans_def Transaction_set_difference_def Transaction_eq_def
  CoinbaseUser_create_transaction_def create_transaction_def Transaction_init_def User_init_def
  get_id_s_def append_genesis_block_def
  Blockchain_init_def StakeholderSignaturesBook_init_def
  TrainingDeclarationsBook_init_def STAKEHOLDERS_NUM_def EMPLOYEES_NUM_def encode_def hex_def
  hex_digit_def str_int_def str_nat.simps str_opt_def Let_def

text \<open>
  Claim C2 does not hold of the code. The Roy node \<open>Employee-3\<close> receives the two
  signatures of the normal stakeholders for a header and then a third signature for the
  same header. The first leaves the chain as it is; the second makes the count 2 and the
  node finalizes: it sends a wrapped block and its chain has two blocks. The stage of the
  book is open after that, the third signature is counted, and the node finalizes a
  second time: two wrapped blocks sent, three blocks in its chain.
\<close>

theorem roy_finalizes_again:
  "(case collect_STAKEHOLDER_SIGNATURES example_primitives ''t1'' ''t2'' ''t3'' (''cpriv'', ''cpub'')
           example_employee [example_signature] of
      Inl err \<Rightarrow> False
    | Inr e \<Rightarrow> length (chain (blockchain e)) = 1 \<and> sent e = []
        \<and> get_signatures_num (stakeholder_signatures_book e) ''m:0'' ''6d3a307c'' = 1)
   \<and> (case collect_STAKEHOLDER_SIGNATURES example_primitives ''t1'' ''t2'' ''t3'' (''cpriv'', ''cpub'')
           example_employee [example_signature, example_signature_1] of
      Inl err \<Rightarrow> False
    | Inr e \<Rightarrow> length (chain (blockchain e)) = 2 \<and> length (sent e) = 1
        \<and> get_signatures_num (stakeholder_signatures_book e) ''m:0'' ''6d3a307c'' = 2
        \<and> is_open (stakeholder_signatures_book e) ''m:0'')
   \<and> (case collect_STAKEHOLDER_SIGNATURES example_primitives ''t1'' ''t2'' ''t3'' (''cpriv'', ''cpub'')
           example_employee [example_signature, example_signature_1, example_signature] of
      Inl err \<Rightarrow> False
    | Inr e \<Rightarrow> length (chain (blockchain e)) = 3 \<and> length (sent e) = 2
        \<and> get_signatures_num (stakeholder_signatures_book e) ''m:0'' ''6d3a307c'' = 3
        \<and> is_open (stakeholder_signatures_book e) ''m:0'')"
proof (intro conjI)
  show "case collect_STAKEHOLDER_SIGNATURES example_primitives ''t1'' ''t2'' ''t3'' (''cpriv'', ''cpub'')
           example_employee [example_signature] of
      Inl err \<Rightarrow> False
    | Inr e \<Rightarrow> length (chain (blockchain e)) = 1 \<and> sent e = []
        \<and> get_signatures_num (stakeholder_signatures_book e) ''m:0'' ''6d3a307c'' = 1"
    by (simp add: example_defs employee_defs)
  show "case collect_STAKEHOLDER_SIGNATURES example_primitives ''t1'' ''t2'' ''t3'' (''cpriv'', ''cpub'')
           example_employee [example_signature, example_signature_1] of
      Inl err \<Rightarrow> False
    | Inr e \<Rightarrow> length (chain (blockchain e)) = 2 \<and> length (sent e) = 1
        \<and> get_signatures_num (stakeholder_signatures_book e) ''m:0'' ''6d3a307c'' = 2
        \<and> is_open (stakeholder_signatures_book e) ''m:0''"
    by (simp add: example_defs employee_defs)
  show "case collect_STAKEHOLDER_SIGNATURES example_primitives ''t1'' ''t2'' ''t3'' (''cpriv'', ''cpub'')
           example_employee [example_signature, example_signature_1, example_signature] of
      Inl err \<Rightarrow> False
    | Inr e \<Rightarrow> length (chain (blockchain e)) = 3 \<and> length (sent e) = 2
        \<and> get_signatures_num (stakeholder_signatures_book e) ''m:0'' ''6d3a307c'' = 3
        \<and> is_open (stakeholder_signatures_book e) ''m:0''"
    by (simp add: example_defs employee_defs)
qed

text \<open>The Roy procedure does not touch the book of stakeholder signatures.\<close>

lemma perform_roy_stakeholder_procedure_book:
  "perform_roy_stakeholder_procedure P now now_tx now_block keys e bh = Inr e' \<Longrightarrow>
   stakeholder_signatures_book e' = stakeholder_signatures_book e"
  by (auto simp add: perform_roy_stakeholder_procedure_def remove_served_trans_from_pending_trans_def
      Let_def split: sum.splits)

text \<open>
  Claim C7. A wrapped block whose header has a block index not above the index of the
  local tip is dropped: the whole state of the node, and so its chain, its pool of
  pending transactions, its books and its restart flag, is as before.
\<close>

theorem stale_wrapped_block_dropped:
  assumes "get_latest_block (blockchain e) = Inr tip"
    and "block_index (wb_block_header wb) \<le> index tip"
  shows "collect_WRAPPED_BLOCK P now_block e wb = Inr e"
  using assms by (simp add: collect_WRAPPED_BLOCK_def)

theorem stale_wrapped_block_dropped_witness:
  "get_latest_block (blockchain example_employee) = Inr (last (chain example_genesis_chain))
   \<and> block_index (wb_block_header example_stale_wrapped_block)
        = index (last (chain example_genesis_chain))
   \<and> collect_WRAPPED_BLOCK example_primitives ''t3'' example_employee example_stale_wrapped_block
        = Inr example_employee"
proof -
  have a: "get_latest_block (blockchain example_employee) = Inr (last (chain example_genesis_chain))"
    by (simp add: example_employee_def get_latest_block_def example_genesis_chain_def
        append_genesis_block_def add_block_def Blockchain_init_def Let_def)
  have b: "block_index (wb_block_header example_stale_wrapped_block)
        = index (last (chain example_genesis_chain))"
    by (simp add: example_stale_wrapped_block_def example_genesis_chain_def
        append_genesis_block_def add_block_def Blockchain_init_def Block_init_def Let_def)
  then have c: "block_index (wb_block_header example_stale_wrapped_block)
        \<le> index (last (chain example_genesis_chain))"
    by simp
  from stale_wrapped_block_dropped [OF a c, of example_primitives "''t3''"] a b
  show ?thesis by simp
qed

subsection \<open>Signing\<close>

text \<open>
  Claim C5 does not hold of the code. \<open>sign\<close> signs the pickle of the object as it
  is, signature attribute included, while verification runs over the pickle with the
  signature set to \<open>None\<close>. The two agree when the signature was \<open>None\<close> at the
  call. In the concrete instance a header that already carries a signature fails to
  verify after being signed, and the same header with no signature verifies.
\<close>

theorem sign_signs_pickle_with_signature:
  "signature (sign P pickle priv m) = Some (ed25519_sign P priv (pickle m))
   \<and> fst (dumps_without_sig pickle (sign P pickle priv m)) = pickle (m\<lparr>signature := None\<rparr>)
   \<and> verify_signature example_primitives (Inr (msg_public_key example_block_header))
        (fst (dumps_without_sig (pickle_bh example_primitives)
               (sign example_primitives (pickle_bh example_primitives) ''k1'' example_block_header)))
        (signature (sign example_primitives (pickle_bh example_primitives) ''k1''
               example_block_header))
      = Inr False
   \<and> verify_signature example_primitives (Inr (msg_public_key example_block_header))
        (fst (dumps_without_sig (pickle_bh example_primitives)
               (sign example_primitives (pickle_bh example_primitives) ''k1''
                  (example_block_header\<lparr>signature := None\<rparr>))))
        (signature (sign example_primitives (pickle_bh example_primitives) ''k1''
               (example_block_header\<lparr>signature := None\<rparr>)))
      = Inr True"
  by (simp add: sign_def sign_message_def set_signature_def dumps_without_sig_def Let_def
      verify_signature_def decode_public_key_from_bytes_def example_primitives_def
      example_block_header_def str_opt_def)

end
